theory Spec2Isabelle
  imports Complex_Main
begin

section \<open>Data model\<close>

text \<open>
  The package \<^verbatim>\<open>turf-boolean-within\<close> decides whether a first GeoJSON geometry lies
  within a second one. A coordinate is the array \<^verbatim>\<open>[x, y]\<close>; the code reads the
  components 0 and 1 only. GeoJSON numbers are finite, and on finite numbers the
  comparisons \<^verbatim>\<open>===\<close>, \<^verbatim>\<open><\<close> and \<^verbatim>\<open>>\<close> of the source agree with those of
  the reals, so a number the source receives is a \<^typ>\<open>real\<close>. The numbers the
  source computes (the midpoint of two coordinates) are rounded as the source's
  arithmetic rounds them; see the local primitives. A bounding box is the array
  \<^verbatim>\<open>[minX, minY, maxX, maxY]\<close>.
\<close>

type_synonym coord = "real \<times> real"

type_synonym bbox = "real \<times> real \<times> real \<times> real"

text \<open>
  A geometry carries its declared type and its \<^verbatim>\<open>coordinates\<close>. \<open>Other t\<close> is a
  geometry whose declared type \<open>t\<close> is none of the four names the dispatcher knows
  (\<^verbatim>\<open>MultiLineString\<close>, \<^verbatim>\<open>MultiPolygon\<close>, \<^verbatim>\<open>GeometryCollection\<close>, ...); the
  dispatcher never reads its coordinates.
\<close>

datatype geometry =
    Point coord
  | MultiPoint "coord list"
  | LineString "coord list"
  | Polygon "coord list list"
  | Other string

definition supportedTypes :: "string list" where
  "supportedTypes = [''Point'', ''MultiPoint'', ''LineString'', ''Polygon'']"

text \<open>\<open>Other t\<close> stands for a declared type outside the four names.\<close>

fun wellTyped :: "geometry \<Rightarrow> bool" where
  "wellTyped (Other t) = (t \<notin> set supportedTypes)"
| "wellTyped _ = True"

text \<open>
  Modelled from the spec: \<^verbatim>\<open>getType(input) -> typeName\<close> of \<^verbatim>\<open>@turf/invariant\<close>,
  which is imported by the source and is not part of it. \<^verbatim>\<open>getGeom\<close> is the
  identity here: the inputs are geometries already.
\<close>

fun getType :: "geometry \<Rightarrow> string" where
  "getType (Point _) = ''Point''"
| "getType (MultiPoint _) = ''MultiPoint''"
| "getType (LineString _) = ''LineString''"
| "getType (Polygon _) = ''Polygon''"
| "getType (Other t) = t"

text \<open>
  The outcomes of a call that are not a boolean:
  \<^item> \<open>Error msg\<close>: the source throws \<^verbatim>\<open>new Error(msg)\<close>;
  \<^item> \<open>TypeError\<close>: the source reads a property of \<^verbatim>\<open>undefined\<close>;
  \<^item> \<open>UndefinedArgument\<close>: the source hands \<^verbatim>\<open>undefined\<close> (an array read out of
    range) to an imported test, whose contract covers coordinates only;
  \<^item> \<open>NonFiniteArgument\<close>: the source hands a point with an infinite component (a
    sum that overflowed) to an imported test, whose contract covers finite
    coordinates only;
  \<^item> \<open>UndefinedResult\<close>: the source returns \<^verbatim>\<open>undefined\<close>.
\<close>

datatype error =
    Error string
  | TypeError
  | UndefinedArgument
  | NonFiniteArgument
  | UndefinedResult

section \<open>Imported functions\<close>

text \<open>
  The source imports \<^verbatim>\<open>inside\<close> (\<^verbatim>\<open>@turf/inside\<close>), \<^verbatim>\<open>isPointOnLine\<close>
  (\<^verbatim>\<open>@turf/boolean-point-on-line\<close>) and \<^verbatim>\<open>calcBbox\<close> (\<^verbatim>\<open>@turf/bbox\<close>). They are
  parameters of every function below. The third argument of the two tests is the flag
  that excludes the boundary; a call that leaves it out passes \<^verbatim>\<open>undefined\<close>, which
  is falsy, hence \<open>False\<close>.
\<close>

record collaborators =
  inside :: "coord \<Rightarrow> coord list list \<Rightarrow> bool \<Rightarrow> bool"
  isPointOnLine :: "coord \<Rightarrow> coord list \<Rightarrow> bool \<Rightarrow> bool"
  calcBbox :: "geometry \<Rightarrow> bbox"

section \<open>The functions of the source\<close>

subsection \<open>Local primitives\<close>

definition doBBoxOverlap :: "bbox \<Rightarrow> bbox \<Rightarrow> bool" where
  "doBBoxOverlap bbox1 bbox2 =
     (case bbox1 of (b10, b11, b12, b13) \<Rightarrow>
      case bbox2 of (b20, b21, b22, b23) \<Rightarrow>
        if b10 > b20 then False
        else if b12 < b22 then False
        else if b11 > b21 then False
        else if b13 < b23 then False
        else True)"

definition compareCoords :: "coord \<Rightarrow> coord \<Rightarrow> bool" where
  "compareCoords pair1 pair2 = (fst pair1 = fst pair2 \<and> snd pair1 = snd pair2)"

text \<open>
  The numbers of the source are IEEE 754 binary64 values, and its \<^verbatim>\<open>+\<close> and
  \<^verbatim>\<open>/\<close> return the exact result rounded to the nearest binary64 value, ties to the
  even one; a result beyond the largest binary64 value is an infinity. A computed
  number is therefore finite or one of the two infinities (finite operands give no
  NaN here).
\<close>

datatype number = Finite real | Infinity | MinusInfinity

text \<open>
  The binade of a positive \<open>a\<close>: the exponent \<open>e\<close> with \<open>2 ^ e \<le> a < 2 ^ (e + 1)\<close>,
  and \<open>- 1022\<close>, the least exponent of binary64, for every smaller \<open>a\<close>.
\<close>

function binadeUp :: "real \<Rightarrow> int \<Rightarrow> int" where
  "binadeUp a e = (if 2 \<le> a then binadeUp (a / 2) (e + 1) else e)"
  by pat_completeness auto
termination
  by (relation "measure (\<lambda>(a, e). nat \<lceil>a\<rceil>)") (simp_all, linarith)

function binadeDown :: "real \<Rightarrow> int \<Rightarrow> int" where
  "binadeDown a e = (if a < 1 \<and> - 1022 < e then binadeDown (a * 2) (e - 1) else e)"
  by pat_completeness auto
termination
  by (relation "measure (\<lambda>(a, e). nat (e + 1022))") simp_all

definition binade :: "real \<Rightarrow> int" where
  "binade a = (if 1 \<le> a then binadeUp a 0 else binadeDown a 0)"

definition pow2 :: "int \<Rightarrow> real" where
  "pow2 e = (if 0 \<le> e then 2 ^ nat e else 1 / 2 ^ nat (- e))"

text \<open>The nearest integer, a tie going to the even one.\<close>

definition roundHalfEven :: "real \<Rightarrow> int" where
  "roundHalfEven r =
     (if r - of_int \<lfloor>r\<rfloor> < 1 / 2 then \<lfloor>r\<rfloor>
      else if 1 / 2 < r - of_int \<lfloor>r\<rfloor> then \<lfloor>r\<rfloor> + 1
      else if even \<lfloor>r\<rfloor> then \<lfloor>r\<rfloor>
      else \<lfloor>r\<rfloor> + 1)"

text \<open>
  The binary64 values of the binade \<open>e\<close> are the multiples of \<open>2 ^ (e - 52)\<close>
  (53 significant bits).
\<close>

definition quantum :: "real \<Rightarrow> real" where
  "quantum a = pow2 (binade a - 52)"

text \<open>A positive magnitude rounded to a multiple of its quantum.\<close>

definition roundMagnitude :: "real \<Rightarrow> real" where
  "roundMagnitude a = of_int (roundHalfEven (a / quantum a)) * quantum a"

text \<open>
  Rounding to binary64: a magnitude that rounds to \<open>2 ^ 1024\<close> or more overflows to
  the infinity of its sign.
\<close>

definition roundToDouble :: "real \<Rightarrow> number" where
  "roundToDouble x =
     (if x = 0 then Finite 0
      else if pow2 1024 \<le> roundMagnitude \<bar>x\<bar>
        then (if 0 < x then Infinity else MinusInfinity)
      else Finite (if 0 < x then roundMagnitude \<bar>x\<bar> else - roundMagnitude \<bar>x\<bar>))"

text \<open>\<^verbatim>\<open>x + y\<close> on two finite numbers.\<close>

definition jsAdd :: "real \<Rightarrow> real \<Rightarrow> number" where
  "jsAdd x y = roundToDouble (x + y)"

text \<open>\<^verbatim>\<open>n / 2\<close>; half an infinity is that infinity.\<close>

fun jsDivideBy2 :: "number \<Rightarrow> number" where
  "jsDivideBy2 (Finite x) = roundToDouble (x / 2)"
| "jsDivideBy2 Infinity = Infinity"
| "jsDivideBy2 MinusInfinity = MinusInfinity"

definition getMidpoint :: "coord \<Rightarrow> coord \<Rightarrow> number \<times> number" where
  "getMidpoint pair1 pair2 =
     (jsDivideBy2 (jsAdd (fst pair1) (fst pair2)),
      jsDivideBy2 (jsAdd (snd pair1) (snd pair2)))"

text \<open>A computed point as a coordinate, when both of its components are finite.\<close>

fun finitePoint :: "number \<times> number \<Rightarrow> coord option" where
  "finitePoint (Finite x, Finite y) = Some (x, y)"
| "finitePoint computed = None"

text \<open>\<^verbatim>\<open>xs[i]\<close> in JavaScript: \<^verbatim>\<open>undefined\<close> out of range.\<close>

definition nth_js :: "'a list \<Rightarrow> nat \<Rightarrow> 'a option" where
  "nth_js xs i = (if i < length xs then Some (xs ! i) else None)"

subsection \<open>Point in MultiPoint\<close>

text \<open>The loop over \<^verbatim>\<open>multiPoint.coordinates\<close>; \<^verbatim>\<open>break\<close> leaves it with \<open>True\<close>.\<close>

fun isPointInMultiPoint_loop :: "coord \<Rightarrow> coord list \<Rightarrow> bool \<Rightarrow> bool" where
  "isPointInMultiPoint_loop point [] output = output"
| "isPointInMultiPoint_loop point (m # rest) output =
     (if compareCoords m point then True
      else isPointInMultiPoint_loop point rest output)"

definition isPointInMultiPoint :: "coord \<Rightarrow> coord list \<Rightarrow> bool" where
  "isPointInMultiPoint point multiPoint = isPointInMultiPoint_loop point multiPoint False"

subsection \<open>MultiPoint in MultiPoint\<close>

text \<open>The inner loop has no \<^verbatim>\<open>break\<close>: it runs over all of the second MultiPoint.\<close>

fun anyMatch_loop :: "coord \<Rightarrow> coord list \<Rightarrow> bool \<Rightarrow> bool" where
  "anyMatch_loop p1 [] anyMatch = anyMatch"
| "anyMatch_loop p1 (p2 # rest) anyMatch =
     anyMatch_loop p1 rest (if compareCoords p1 p2 then True else anyMatch)"

fun isMultiPointInMultiPoint :: "coord list \<Rightarrow> coord list \<Rightarrow> bool" where
  "isMultiPointInMultiPoint [] multiPoint2 = True"
| "isMultiPointInMultiPoint (p1 # rest) multiPoint2 =
     (let anyMatch = anyMatch_loop p1 multiPoint2 False in
      if \<not> anyMatch then False
      else isMultiPointInMultiPoint rest multiPoint2)"

subsection \<open>MultiPoint on LineString\<close>

fun isMultiPointOnLine_loop ::
  "collaborators \<Rightarrow> coord list \<Rightarrow> coord list \<Rightarrow> bool \<Rightarrow> bool" where
  "isMultiPointOnLine_loop c [] lineString foundInsidePoint = foundInsidePoint"
| "isMultiPointOnLine_loop c (p # rest) lineString foundInsidePoint =
     (if \<not> isPointOnLine c p lineString False then False
      else isMultiPointOnLine_loop c rest lineString
             (if \<not> foundInsidePoint then isPointOnLine c p lineString True
              else foundInsidePoint))"

definition isMultiPointOnLine :: "collaborators \<Rightarrow> coord list \<Rightarrow> coord list \<Rightarrow> bool" where
  "isMultiPointOnLine c multiPoint lineString =
     isMultiPointOnLine_loop c multiPoint lineString False"

subsection \<open>MultiPoint in Polygon\<close>

text \<open>
  The loop runs once per coordinate of the MultiPoint (the fourth argument counts the
  iterations left), and every iteration reads \<^verbatim>\<open>multiPoint.coordinates[1]\<close>, not
  \<^verbatim>\<open>multiPoint.coordinates[i]\<close>. The variable \<^verbatim>\<open>oneInside\<close> is never assigned. The
  variable \<^verbatim>\<open>isInside\<close> is \<^verbatim>\<open>undefined\<close> (\<open>None\<close>) until the first iteration. The
  loop returns \<^verbatim>\<open>output\<close> and \<^verbatim>\<open>isInside\<close>.
\<close>

fun isMultiPointInPoly_loop ::
  "collaborators \<Rightarrow> coord list \<Rightarrow> coord list list \<Rightarrow> coord list \<Rightarrow> bool option
     \<Rightarrow> error + bool \<times> bool option" where
  "isMultiPointInPoly_loop c coordinates polygon [] isInside = Inr (True, isInside)"
| "isMultiPointInPoly_loop c coordinates polygon (p # rest) isInside =
     (case nth_js coordinates 1 of
        None \<Rightarrow> Inl UndefinedArgument
      | Some p1 \<Rightarrow>
          let isInside0 = inside c p1 polygon False in
          if \<not> isInside0 then Inr (False, Some isInside0)
          else
            let oneInside = False;
                isInside1 = (if \<not> oneInside then inside c p1 polygon True else isInside0)
            in isMultiPointInPoly_loop c coordinates polygon rest (Some isInside1))"

text \<open>\<^verbatim>\<open>return output && isInside\<close>: the value of \<^verbatim>\<open>isInside\<close> when \<^verbatim>\<open>output\<close> holds.\<close>

definition isMultiPointInPoly ::
  "collaborators \<Rightarrow> coord list \<Rightarrow> coord list list \<Rightarrow> error + bool" where
  "isMultiPointInPoly c multiPoint polygon =
     (case isMultiPointInPoly_loop c multiPoint polygon multiPoint None of
        Inl e \<Rightarrow> Inl e
      | Inr (output, isInside) \<Rightarrow>
          if \<not> output then Inr False
          else (case isInside of None \<Rightarrow> Inl UndefinedResult | Some b \<Rightarrow> Inr b))"

subsection \<open>LineString on LineString\<close>

fun isLineOnLine :: "collaborators \<Rightarrow> coord list \<Rightarrow> coord list \<Rightarrow> bool" where
  "isLineOnLine c [] lineString2 = True"
| "isLineOnLine c (p # rest) lineString2 =
     (if \<not> isPointOnLine c p lineString2 False then False
      else isLineOnLine c rest lineString2)"

subsection \<open>LineString in Polygon\<close>

text \<open>
  The loop stops before the last coordinate: an iteration reads the coordinates
  \<open>i\<close> and \<open>i + 1\<close>. The midpoint is computed, and handed to \<^verbatim>\<open>inside\<close>, only
  while no interior point has been found.
\<close>

fun isLineInPoly_loop ::
  "collaborators \<Rightarrow> coord list \<Rightarrow> coord list list \<Rightarrow> bool \<Rightarrow> error + bool" where
  "isLineInPoly_loop c (p # q # rest) polygon foundInsidePoint =
     (if \<not> inside c p polygon False then Inr False
      else
        let found1 = (if \<not> foundInsidePoint then inside c p polygon True
                      else foundInsidePoint)
        in if \<not> found1 then
             (case finitePoint (getMidpoint p q) of
                None \<Rightarrow> Inl NonFiniteArgument
              | Some midpoint \<Rightarrow>
                  isLineInPoly_loop c (q # rest) polygon (inside c midpoint polygon True))
           else isLineInPoly_loop c (q # rest) polygon found1)"
| "isLineInPoly_loop c coordinates polygon foundInsidePoint = Inr foundInsidePoint"

definition isLineInPoly ::
  "collaborators \<Rightarrow> coord list \<Rightarrow> coord list list \<Rightarrow> error + bool" where
  "isLineInPoly c linestring polygon =
     (let polyBbox = calcBbox c (Polygon polygon);
          lineBbox = calcBbox c (LineString linestring)
      in if \<not> doBBoxOverlap polyBbox lineBbox then Inr False
         else isLineInPoly_loop c linestring polygon False)"

subsection \<open>Polygon in Polygon\<close>

fun isPolyInPoly_loop :: "collaborators \<Rightarrow> coord list \<Rightarrow> coord list list \<Rightarrow> bool" where
  "isPolyInPoly_loop c [] feature2 = True"
| "isPolyInPoly_loop c (p # rest) feature2 =
     (if \<not> inside c p feature2 False then False
      else isPolyInPoly_loop c rest feature2)"

text \<open>
  \<^verbatim>\<open>feature1.coordinates[0].length\<close> is read once the boxes have passed; without a
  first ring it is a property of \<^verbatim>\<open>undefined\<close>.
\<close>

definition isPolyInPoly ::
  "collaborators \<Rightarrow> coord list list \<Rightarrow> coord list list \<Rightarrow> error + bool" where
  "isPolyInPoly c feature1 feature2 =
     (let poly1Bbox = calcBbox c (Polygon feature1);
          poly2Bbox = calcBbox c (Polygon feature2)
      in if \<not> doBBoxOverlap poly2Bbox poly1Bbox then Inr False
         else (case nth_js feature1 0 of
                 None \<Rightarrow> Inl TypeError
               | Some ring \<Rightarrow> Inr (isPolyInPoly_loop c ring feature2)))"

subsection \<open>The dispatcher\<close>

fun booleanWithin :: "collaborators \<Rightarrow> geometry \<Rightarrow> geometry \<Rightarrow> error + bool" where
  "booleanWithin c (Point p) feature2 =
     (case feature2 of
        MultiPoint mp \<Rightarrow> Inr (isPointInMultiPoint p mp)
      | LineString l \<Rightarrow> Inr (isPointOnLine c p l True)
      | Polygon poly \<Rightarrow> Inr (inside c p poly True)
      | _ \<Rightarrow> Inl (Error (''feature2 '' @ getType feature2 @ '' geometry not supported'')))"
| "booleanWithin c (MultiPoint mp) feature2 =
     (case feature2 of
        MultiPoint mp2 \<Rightarrow> Inr (isMultiPointInMultiPoint mp mp2)
      | LineString l \<Rightarrow> Inr (isMultiPointOnLine c mp l)
      | Polygon poly \<Rightarrow> isMultiPointInPoly c mp poly
      | _ \<Rightarrow> Inl (Error (''feature2 '' @ getType feature2 @ '' geometry not supported'')))"
| "booleanWithin c (LineString l) feature2 =
     (case feature2 of
        LineString l2 \<Rightarrow> Inr (isLineOnLine c l l2)
      | Polygon poly \<Rightarrow> isLineInPoly c l poly
      | _ \<Rightarrow> Inl (Error (''feature2 '' @ getType feature2 @ '' geometry not supported'')))"
| "booleanWithin c (Polygon poly) feature2 =
     (case feature2 of
        Polygon poly2 \<Rightarrow> isPolyInPoly c poly poly2
      | _ \<Rightarrow> Inl (Error (''feature2 '' @ getType feature2 @ '' geometry not supported'')))"
| "booleanWithin c (Other t) feature2 =
     Inl (Error (''feature1 '' @ getType (Other t) @ '' geometry not supported''))"

section \<open>Reference collaborators\<close>

text \<open>
  The theorems on the source hold for every choice of the imported functions. The
  examples of the spec need the imported functions at concrete points; the definitions
  of this section give them, from the contracts of the spec (its sections 3, 6 and
  glossary): a LineString defines segments between consecutive vertices, a ring is a
  closed sequence of coordinates, and of a Polygon the first ring alone is consulted.
\<close>

text \<open>
  Modelled from the spec: the segments between consecutive vertices of a LineString or
  of a ring (the imported packages that walk them are not in the source).
\<close>

fun segments :: "coord list \<Rightarrow> (coord \<times> coord) list" where
  "segments (a # b # rest) = (a, b) # segments (b # rest)"
| "segments coordinates = []"

text \<open>
  Modelled from the spec: the boundary-inclusive point-on-segment test of the missing
  package \<^verbatim>\<open>@turf/boolean-point-on-line\<close>: \<open>p\<close> is collinear with \<open>a\<close> and \<open>b\<close>
  and lies between them, \<open>a\<close> and \<open>b\<close> included.
\<close>

definition onSegment :: "coord \<Rightarrow> coord \<Rightarrow> coord \<Rightarrow> bool" where
  "onSegment a b p =
     ((fst p - fst a) * (snd b - snd a) = (snd p - snd a) * (fst b - fst a)
      \<and> min (fst a) (fst b) \<le> fst p \<and> fst p \<le> max (fst a) (fst b)
      \<and> min (snd a) (snd b) \<le> snd p \<and> snd p \<le> max (snd a) (snd b))"

text \<open>
  Modelled from the spec: \<^verbatim>\<open>pointOnSegmentOrLine(point, lineString, excludeBoundary)\<close>
  of the missing package \<^verbatim>\<open>@turf/boolean-point-on-line\<close>: the point lies on a
  segment of the line; with \<open>excludeBoundary\<close> it must lie strictly between the
  endpoints of the line, so it is neither its first nor its last coordinate.
\<close>

definition pointOnLine :: "coord \<Rightarrow> coord list \<Rightarrow> bool \<Rightarrow> bool" where
  "pointOnLine p l excludeBoundary =
     ((\<exists>s \<in> set (segments l). onSegment (fst s) (snd s) p)
      \<and> (if excludeBoundary then p \<noteq> hd l \<and> p \<noteq> last l else True))"

text \<open>
  Modelled from the spec: the boundary of a ring, for the missing package
  \<^verbatim>\<open>@turf/inside\<close>: the points of its segments.
\<close>

definition onBoundary :: "coord \<Rightarrow> coord list \<Rightarrow> bool" where
  "onBoundary p ring = (\<exists>s \<in> set (segments ring). onSegment (fst s) (snd s) p)"

text \<open>
  Modelled from the spec: the segment from \<open>a\<close> to \<open>b\<close> crosses the horizontal ray
  that leaves \<open>p\<close> towards larger \<open>x\<close> (for the missing package \<^verbatim>\<open>@turf/inside\<close>).
\<close>

definition crossesRay :: "coord \<Rightarrow> coord \<Rightarrow> coord \<Rightarrow> bool" where
  "crossesRay a b p =
     ((snd a > snd p) \<noteq> (snd b > snd p)
      \<and> fst p < (fst b - fst a) * (snd p - snd a) / (snd b - snd a) + fst a)"

text \<open>
  Modelled from the spec: the strict interior of a ring, for the missing package
  \<^verbatim>\<open>@turf/inside\<close>: off the boundary, and the ray crosses the ring an odd number of
  times.
\<close>

definition strictlyInside :: "coord \<Rightarrow> coord list \<Rightarrow> bool" where
  "strictlyInside p ring =
     (\<not> onBoundary p ring
      \<and> odd (length (filter (\<lambda>s. crossesRay (fst s) (snd s) p) (segments ring))))"

text \<open>
  Modelled from the spec: \<^verbatim>\<open>pointInPolygon(point, polygon, excludeBoundary)\<close> of the
  missing package \<^verbatim>\<open>@turf/inside\<close>: inside or on the boundary of the first ring;
  with \<open>excludeBoundary\<close>, strictly inside it.
\<close>

definition pointInPolygon :: "coord \<Rightarrow> coord list list \<Rightarrow> bool \<Rightarrow> bool" where
  "pointInPolygon p polygon excludeBoundary =
     (case polygon of
        [] \<Rightarrow> False
      | ring # holes \<Rightarrow>
          if excludeBoundary then strictlyInside p ring
          else onBoundary p ring \<or> strictlyInside p ring)"

text \<open>
  Modelled from the spec: the coordinates a geometry's bounding box is derived from
  (for the missing package \<^verbatim>\<open>@turf/bbox\<close>).
\<close>

fun coordsOf :: "geometry \<Rightarrow> coord list" where
  "coordsOf (Point p) = [p]"
| "coordsOf (MultiPoint mp) = mp"
| "coordsOf (LineString l) = l"
| "coordsOf (Polygon rings) = concat rings"
| "coordsOf (Other t) = []"

text \<open>
  Modelled from the spec: \<^verbatim>\<open>boundingBox(geometry) -> BBox\<close> of the missing package
  \<^verbatim>\<open>@turf/bbox\<close>: the tuple (minX, minY, maxX, maxY) of the geometry's coordinates.
  The spec gives no box to a geometry without coordinates; the value chosen for it
  here is used by no theorem.
\<close>

definition boundingBox :: "geometry \<Rightarrow> bbox" where
  "boundingBox g =
     (case coordsOf g of
        [] \<Rightarrow> (0, 0, 0, 0)
      | p # ps \<Rightarrow>
          (fold min (map fst ps) (fst p), fold min (map snd ps) (snd p),
           fold max (map fst ps) (fst p), fold max (map snd ps) (snd p)))"

text \<open>Modelled from the spec: the three imported functions together.\<close>

definition reference :: collaborators where
  "reference =
     \<lparr>inside = pointInPolygon, isPointOnLine = pointOnLine, calcBbox = boundingBox\<rparr>"

text \<open>The square of the spec's scenarios.\<close>

definition square :: "coord list" where
  "square = [(0, 0), (0, 10), (10, 10), (10, 0), (0, 0)]"

text \<open>A triangle with the edge \<open>y = 3 * x\<close>, for an example of rounding.\<close>

definition triangle :: "coord list" where
  "triangle = [(0, 0), (2, 6), (2, 0), (0, 0)]"

text \<open>A square inside it, for the examples.\<close>

definition innerSquare :: "coord list" where
  "innerSquare = [(2, 2), (2, 8), (8, 8), (8, 2), (2, 2)]"

text \<open>The line of the example in the source's documentation.\<close>

definition exampleLine :: "coord list" where
  "exampleLine = [(1, 1), (1, 2), (1, 3), (1, 4)]"

text \<open>
  The ordered pairs of type names that the spec lists as supported (its section 4.1),
  to be compared with the branches of the dispatcher.
\<close>

definition supportedPairs :: "(string \<times> string) list" where
  "supportedPairs =
     [(''Point'', ''MultiPoint''), (''Point'', ''LineString''), (''Point'', ''Polygon''),
      (''MultiPoint'', ''MultiPoint''), (''MultiPoint'', ''LineString''),
      (''MultiPoint'', ''Polygon''),
      (''LineString'', ''LineString''), (''LineString'', ''Polygon''),
      (''Polygon'', ''Polygon'')]"

section \<open>What the loops compute\<close>

lemma isPointInMultiPoint_loop_iff:
  "isPointInMultiPoint_loop point m output =
     (if \<exists>q \<in> set m. fst q = fst point \<and> snd q = snd point then True else output)"
  by (induction m) (auto simp: compareCoords_def)

lemma isMultiPointOnLine_loop_iff:
  "isMultiPointOnLine_loop c mp l found =
     ((\<forall>p \<in> set mp. isPointOnLine c p l False)
      \<and> (found \<or> (\<exists>p \<in> set mp. isPointOnLine c p l True)))"
  by (induction mp arbitrary: found) auto

lemma isLineOnLine_iff:
  "isLineOnLine c l1 l2 = (\<forall>p \<in> set l1. isPointOnLine c p l2 False)"
  by (induction l1) auto

text \<open>
  When the LineString-in-Polygon loop returns a boolean, the boolean says that each
  vertex but the last passed the test, and that the flag was set: at the start, by a
  vertex, or by a computed midpoint.
\<close>

lemma isLineInPoly_loop_result:
  "isLineInPoly_loop c l P found = Inr b \<Longrightarrow>
     b = ((\<forall>p \<in> set (butlast l). inside c p P False)
          \<and> (found \<or> (\<exists>p \<in> set (butlast l). inside c p P True)
              \<or> (\<exists>s \<in> set (zip l (tl l)). \<exists>m.
                    finitePoint (getMidpoint (fst s) (snd s)) = Some m \<and> inside c m P True)))"
proof (induction c l P found rule: isLineInPoly_loop.induct)
  case (1 c p q rest P found)
  show ?case
  proof (cases "inside c p P False")
    case False
    with "1.prems" show ?thesis by auto
  next
    case vertex: True
    show ?thesis
    proof (cases "found \<or> inside c p P True")
      case True
      with vertex "1.prems" have rest: "isLineInPoly_loop c (q # rest) P True = Inr b"
        by (auto simp: Let_def split: if_splits)
      from True have "True = (if \<not> found then inside c p P True else found)"
        by auto
      with "1.IH"(2) [of True] vertex rest True show ?thesis
        by auto
    next
      case False
      with vertex "1.prems" obtain m where
        m: "finitePoint (getMidpoint p q) = Some m"
        and rest: "isLineInPoly_loop c (q # rest) P (inside c m P True) = Inr b"
        by (auto simp: Let_def split: option.splits)
      from False have "False = (if \<not> found then inside c p P True else found)"
        by auto
      with "1.IH"(1) [of False m] vertex rest False m show ?thesis
        by (auto simp del: split_paired_Ex split_paired_All)
    qed
  qed
qed auto

text \<open>With finite midpoints the loop returns a boolean.\<close>

lemma isLineInPoly_loop_finite:
  "\<forall>s \<in> set (zip l (tl l)). finitePoint (getMidpoint (fst s) (snd s)) \<noteq> None \<Longrightarrow>
     \<exists>b. isLineInPoly_loop c l P found = Inr b"
  by (induction c l P found rule: isLineInPoly_loop.induct)
    (auto simp: Let_def split: option.splits)

lemmas number_simps =
  getMidpoint_def jsAdd_def roundToDouble_def roundMagnitude_def quantum_def binade_def
  pow2_def roundHalfEven_def

text \<open>
  The midpoint is rounded: of (1, 3) and (3 / 2 ^ 54, 9 / 2 ^ 54), two binary64 points of
  the line \<open>y = 3 * x\<close>, it is a point off that line.
\<close>

lemma getMidpoint_examples:
  "getMidpoint (1, 3) (3 / 2 ^ 54, 9 / 2 ^ 54)
     = (Finite (1 / 2 + 1 / 2 ^ 53), Finite (3 / 2 + 1 / 2 ^ 52))"
  "getMidpoint (0, 4) (10, 8) = (Finite 5, Finite 6)"
  "getMidpoint (0, 0) (0, 10) = (Finite 0, Finite 5)"
  by (simp_all add: number_simps)

lemma isPolyInPoly_loop_iff:
  "isPolyInPoly_loop c ring B = (\<forall>v \<in> set ring. inside c v B False)"
  by (induction ring) auto

lemma doBBoxOverlap_iff:
  "doBBoxOverlap (a0, a1, a2, a3) (b0, b1, b2, b3)
     = (a0 \<le> b0 \<and> a1 \<le> b1 \<and> b2 \<le> a2 \<and> b3 \<le> a3)"
  by (auto simp: doBBoxOverlap_def)

lemma doBBoxOverlap_refl: "doBBoxOverlap b b"
  by (cases b) (simp add: doBBoxOverlap_def)

text \<open>
  With two coordinates or more, an iteration of the MultiPoint-in-Polygon loop tests
  the coordinate of index 1, whatever the iteration.
\<close>

lemma isMultiPointInPoly_loop_fixed_index:
  "isMultiPointInPoly_loop c (p0 # p1 # rest) P its isInside =
     (if its = [] then Inr (True, isInside)
      else if \<not> inside c p1 P False then Inr (False, Some False)
      else Inr (True, Some (inside c p1 P True)))"
  by (induction its arbitrary: isInside) (auto simp: nth_js_def Let_def)

text \<open>A polygon without rings passes the boxes only to fail on its first ring.\<close>

lemma polygon_without_rings:
  "doBBoxOverlap (calcBbox c (Polygon B)) (calcBbox c (Polygon [])) \<Longrightarrow>
     booleanWithin c (Polygon []) (Polygon B) = Inl TypeError"
  by (simp add: isPolyInPoly_def nth_js_def)

section \<open>The reference collaborators on vertices\<close>

lemma onSegment_ends: "onSegment a b a" "onSegment a b b"
  by (simp_all add: onSegment_def)

lemma vertex_on_segment:
  "2 \<le> length l \<Longrightarrow> p \<in> set l \<Longrightarrow> \<exists>s \<in> set (segments l). onSegment (fst s) (snd s) p"
proof (induction l rule: segments.induct)
  case (1 a b rest)
  show ?case
  proof (cases "p = a \<or> p = b")
    case True
    then show ?thesis by (auto simp: onSegment_ends)
  next
    case False
    with 1 have "p \<in> set rest" by auto
    then have "2 \<le> length (b # rest)" "p \<in> set (b # rest)"
      by (cases rest; simp)+
    with 1 show ?thesis by auto
  qed
qed simp_all

lemmas reference_simps =
  reference_def pointInPolygon_def strictlyInside_def onBoundary_def pointOnLine_def
  onSegment_def crossesRay_def boundingBox_def square_def innerSquare_def exampleLine_def
  triangle_def

section \<open>The claims\<close>

text \<open>
  C1. A MultiPoint is within a Polygon iff each of its points is inside or on the
  boundary and one is strictly interior, each point tested individually. The source
  does not do this: with two coordinates or more it tests the coordinate of index 1 on
  every iteration, so the result is that of the second point alone; with one coordinate
  it hands \<^verbatim>\<open>undefined\<close> to the imported test. At the MultiPoint (20, 20), (5, 5) and
  the square, the source answers true although (20, 20) is outside the square.
\<close>

theorem multipoint_in_polygon_tests_index_one_only:
  "booleanWithin c (MultiPoint (p0 # p1 # rest)) (Polygon P)
     = Inr (inside c p1 P False \<and> inside c p1 P True)
   \<and> booleanWithin c (MultiPoint [p0]) (Polygon P) = Inl UndefinedArgument
   \<and> booleanWithin reference (MultiPoint [(20, 20), (5, 5)]) (Polygon [square]) = Inr True
   \<and> inside reference (20, 20) [square] False = False"
proof -
  have general: "isMultiPointInPoly c' (q0 # q1 # qs) Q
      = Inr (inside c' q1 Q False \<and> inside c' q1 Q True)" for c' q0 q1 qs Q
    unfolding isMultiPointInPoly_def isMultiPointInPoly_loop_fixed_index by simp
  have single: "isMultiPointInPoly c [p0] P = Inl UndefinedArgument"
    by (simp add: isMultiPointInPoly_def nth_js_def)
  have "inside reference (5, 5) [square] False" "inside reference (5, 5) [square] True"
    "\<not> inside reference (20, 20) [square] False"
    by (simp_all add: reference_simps)
  with general single show ?thesis by simp
qed

text \<open>
  C5. A Point is within a MultiPoint iff its coordinate equals, component by component
  and with no tolerance, a coordinate of the MultiPoint.
\<close>

theorem point_in_multipoint_exact_match:
  "booleanWithin c (Point p) (MultiPoint m)
     = Inr (\<exists>q \<in> set m. fst q = fst p \<and> snd q = snd p)"
  by (simp add: isPointInMultiPoint_def isPointInMultiPoint_loop_iff)

theorem point_in_multipoint_exact_match_witness:
  "booleanWithin reference (Point (1, 2)) (MultiPoint [(0, 0), (1, 2)]) = Inr True
   \<and> booleanWithin reference (Point (1, 2)) (MultiPoint [(0, 0), (1, 2.000001)]) = Inr False"
  using point_in_multipoint_exact_match [of reference "(1, 2)" "[(0, 0), (1, 2)]"]
    point_in_multipoint_exact_match [of reference "(1, 2)" "[(0, 0), (1, 2.000001)]"]
  by simp

text \<open>
  C9. A MultiPoint without coordinates is within every MultiPoint, and within no
  LineString: the flag for an interior point starts false and is never set.
\<close>

theorem empty_multipoint_asymmetry:
  "booleanWithin c (MultiPoint []) (MultiPoint m) = Inr True
   \<and> booleanWithin c (MultiPoint []) (LineString l) = Inr False"
  by (simp add: isMultiPointOnLine_def)

theorem empty_multipoint_asymmetry_witness:
  "booleanWithin reference (MultiPoint []) (MultiPoint [(1, 2)]) = Inr True
   \<and> booleanWithin reference (MultiPoint []) (LineString exampleLine) = Inr False"
  using empty_multipoint_asymmetry [of reference "[(1, 2)]" exampleLine]
  by simp

text \<open>
  C7. A MultiPoint is within a LineString iff each of its points is on the line under
  the boundary-inclusive test and one of them passes the test that excludes the
  boundary. The loop returns false at the first point that is not on the line: whatever
  follows that point, and whatever the flag, is not consulted.
\<close>

theorem multipoint_on_line:
  "booleanWithin c (MultiPoint mp) (LineString l)
     = Inr ((\<forall>p \<in> set mp. isPointOnLine c p l False)
            \<and> (\<exists>p \<in> set mp. isPointOnLine c p l True))
   \<and> (\<not> isPointOnLine c q l False \<longrightarrow>
        isMultiPointOnLine_loop c (q # post) l found = False
        \<and> booleanWithin c (MultiPoint (pre @ q # post)) (LineString l) = Inr False)"
proof -
  have result: "booleanWithin c (MultiPoint ps) (LineString l)
      = Inr ((\<forall>p \<in> set ps. isPointOnLine c p l False)
             \<and> (\<exists>p \<in> set ps. isPointOnLine c p l True))" for ps
    by (simp add: isMultiPointOnLine_def isMultiPointOnLine_loop_iff)
  have stops: "isMultiPointOnLine_loop c (q # post) l found = False"
    if "\<not> isPointOnLine c q l False"
    using that by simp
  have fails: "booleanWithin c (MultiPoint (pre @ q # post)) (LineString l) = Inr False"
    if "\<not> isPointOnLine c q l False"
    using that unfolding result by auto
  from result [of mp] stops fails show ?thesis by blast
qed

theorem multipoint_on_line_witness:
  "\<not> isPointOnLine reference (5, 5) exampleLine False
   \<and> booleanWithin reference (MultiPoint [(1, 2), (5, 5), (1, 3)]) (LineString exampleLine)
       = Inr False
   \<and> booleanWithin reference (MultiPoint [(1, 1), (1, 2)]) (LineString exampleLine)
       = Inr True
   \<and> booleanWithin reference (MultiPoint [(1, 1), (1, 4)]) (LineString exampleLine)
       = Inr False"
proof -
  have off: "\<not> isPointOnLine reference (5, 5) exampleLine False"
    by (simp add: reference_simps)
  have on: "isPointOnLine reference (1, 1) exampleLine False"
    "isPointOnLine reference (1, 2) exampleLine False"
    "isPointOnLine reference (1, 4) exampleLine False"
    by (simp_all add: reference_simps)
  have strict: "\<not> isPointOnLine reference (1, 1) exampleLine True"
    "isPointOnLine reference (1, 2) exampleLine True"
    "\<not> isPointOnLine reference (1, 4) exampleLine True"
    by (simp_all add: reference_simps)
  from off on strict
    multipoint_on_line [of reference "[(1, 2), (5, 5), (1, 3)]" exampleLine
      "(5, 5)" "[(1, 3)]" False "[(1, 2)]"]
    multipoint_on_line [of reference "[(1, 1), (1, 2)]" exampleLine]
    multipoint_on_line [of reference "[(1, 1), (1, 4)]" exampleLine]
  show ?thesis by simp
qed

text \<open>
  C6. A LineString is within a LineString iff each vertex of the first is on the second
  under the boundary-inclusive test, and nothing more is asked. Each vertex of a
  LineString (two coordinates or more, as the data model has it) lies on a segment of
  that LineString, so a LineString is within itself.
\<close>

theorem line_on_line_reflexive:
  "booleanWithin c (LineString l1) (LineString l2)
     = Inr (\<forall>p \<in> set l1. isPointOnLine c p l2 False)
   \<and> (2 \<le> length l \<longrightarrow>
        booleanWithin reference (LineString l) (LineString l) = Inr True)"
proof -
  have result: "booleanWithin c' (LineString k1) (LineString k2)
      = Inr (\<forall>p \<in> set k1. isPointOnLine c' p k2 False)" for c' k1 k2
    by (simp add: isLineOnLine_iff)
  have "booleanWithin reference (LineString l) (LineString l) = Inr True"
    if "2 \<le> length l"
  proof -
    have "isPointOnLine reference p l False" if "p \<in> set l" for p
      using vertex_on_segment [OF \<open>2 \<le> length l\<close> that]
      by (simp add: reference_def pointOnLine_def)
    then show ?thesis unfolding result by simp
  qed
  with result [of c l1 l2] show ?thesis by blast
qed

theorem line_on_line_reflexive_witness:
  "2 \<le> length exampleLine
   \<and> booleanWithin reference (LineString exampleLine) (LineString exampleLine) = Inr True
   \<and> booleanWithin reference (LineString [(1, 2), (1, 5)]) (LineString exampleLine)
       = Inr False"
proof -
  have len: "2 \<le> length exampleLine"
    by (simp add: exampleLine_def)
  have "isPointOnLine reference (1, 2) exampleLine False"
    "\<not> isPointOnLine reference (1, 5) exampleLine False"
    by (simp_all add: reference_simps)
  with len line_on_line_reflexive [of reference "[(1, 2), (1, 5)]" exampleLine exampleLine]
  show ?thesis by simp
qed

text \<open>
  C10. For a Point and a LineString the dispatcher returns what the imported
  point-on-line test answers with the boundary excluded (its third argument is
  \<^verbatim>\<open>true\<close>). Under the reference test a point that is the first or the last
  coordinate of the line is therefore not within the line.
\<close>

theorem point_on_line_excludes_endpoints:
  "booleanWithin c (Point p) (LineString l) = Inr (isPointOnLine c p l True)
   \<and> (l \<noteq> [] \<and> (p = hd l \<or> p = last l) \<longrightarrow>
        booleanWithin reference (Point p) (LineString l) = Inr False)"
  by (auto simp: reference_def pointOnLine_def)

theorem point_on_line_excludes_endpoints_witness:
  "exampleLine \<noteq> [] \<and> (1, 1) = hd exampleLine \<and> (1, 4) = last exampleLine
   \<and> booleanWithin reference (Point (1, 1)) (LineString exampleLine) = Inr False
   \<and> booleanWithin reference (Point (1, 4)) (LineString exampleLine) = Inr False
   \<and> booleanWithin reference (Point (1, 2)) (LineString exampleLine) = Inr True"
proof -
  have ends: "exampleLine \<noteq> []" "(1, 1) = hd exampleLine" "(1, 4) = last exampleLine"
    by (simp_all add: exampleLine_def)
  have mid: "isPointOnLine reference (1, 2) exampleLine True"
    by (simp add: reference_simps)
  from ends mid
    point_on_line_excludes_endpoints [of reference "(1, 1)" exampleLine]
    point_on_line_excludes_endpoints [of reference "(1, 4)" exampleLine]
    point_on_line_excludes_endpoints [of reference "(1, 2)" exampleLine]
  show ?thesis by simp
qed




text \<open>
  C3. For polygons A (with a first ring) and B: when the bounding box of A is not
  contained in that of B, A is not within B; otherwise A is within B iff each vertex of
  the first ring of A is inside or on the boundary of B, and no strictly interior point
  is asked for. A polygon is therefore within itself as soon as the imported test
  accepts its own vertices, and the square of the spec is within an identical square.
\<close>

theorem polygon_in_polygon:
  "(calcBbox c (Polygon A) = (aMinX, aMinY, aMaxX, aMaxY)
    \<and> calcBbox c (Polygon B) = (bMinX, bMinY, bMaxX, bMaxY) \<longrightarrow>
      (\<not> (bMinX \<le> aMinX \<and> bMinY \<le> aMinY \<and> aMaxX \<le> bMaxX \<and> aMaxY \<le> bMaxY) \<longrightarrow>
         booleanWithin c (Polygon A) (Polygon B) = Inr False)
      \<and> (bMinX \<le> aMinX \<and> bMinY \<le> aMinY \<and> aMaxX \<le> bMaxX \<and> aMaxY \<le> bMaxY
          \<and> A = ring # holes \<longrightarrow>
         booleanWithin c (Polygon A) (Polygon B)
           = Inr (\<forall>v \<in> set ring. inside c v B False)))
   \<and> booleanWithin c (Polygon (ring # holes)) (Polygon (ring # holes))
       = Inr (\<forall>v \<in> set ring. inside c v (ring # holes) False)
   \<and> booleanWithin reference (Polygon [square]) (Polygon [square]) = Inr True"
proof -
  have pruned: "booleanWithin c (Polygon A) (Polygon B) = Inr False"
    if "calcBbox c (Polygon A) = (aMinX, aMinY, aMaxX, aMaxY)"
      and "calcBbox c (Polygon B) = (bMinX, bMinY, bMaxX, bMaxY)"
      and "\<not> (bMinX \<le> aMinX \<and> bMinY \<le> aMinY \<and> aMaxX \<le> bMaxX \<and> aMaxY \<le> bMaxY)"
    using that by (simp add: isPolyInPoly_def doBBoxOverlap_iff)
  have vertices: "booleanWithin c (Polygon A) (Polygon B)
        = Inr (\<forall>v \<in> set ring. inside c v B False)"
    if "calcBbox c (Polygon A) = (aMinX, aMinY, aMaxX, aMaxY)"
      and "calcBbox c (Polygon B) = (bMinX, bMinY, bMaxX, bMaxY)"
      and "bMinX \<le> aMinX \<and> bMinY \<le> aMinY \<and> aMaxX \<le> bMaxX \<and> aMaxY \<le> bMaxY"
      and "A = ring # holes"
    using that
    by (simp add: isPolyInPoly_def doBBoxOverlap_iff isPolyInPoly_loop_iff nth_js_def)
  have same: "booleanWithin c' (Polygon (r # hs)) (Polygon (r # hs))
       = Inr (\<forall>v \<in> set r. inside c' v (r # hs) False)" for c' r hs
    by (simp add: isPolyInPoly_def doBBoxOverlap_refl isPolyInPoly_loop_iff nth_js_def)
  have corners: "\<forall>v \<in> set square. inside reference v [square] False"
    by (simp add: reference_simps)
  have example: "booleanWithin reference (Polygon [square]) (Polygon [square]) = Inr True"
    using same [of reference square "[]"] corners by simp
  from pruned vertices same [of c ring holes] example
  show ?thesis by blast
qed

theorem polygon_in_polygon_witness:
  "calcBbox reference (Polygon [innerSquare]) = (2, 2, 8, 8)
   \<and> calcBbox reference (Polygon [square]) = (0, 0, 10, 10)
   \<and> booleanWithin reference (Polygon [innerSquare]) (Polygon [square]) = Inr True
   \<and> booleanWithin reference (Polygon [square]) (Polygon [innerSquare]) = Inr False"
proof -
  have boxes: "calcBbox reference (Polygon [innerSquare]) = (2, 2, 8, 8)"
    "calcBbox reference (Polygon [square]) = (0, 0, 10, 10)"
    by (simp_all add: reference_simps)
  have vertices: "\<forall>v \<in> set innerSquare. inside reference v [square] False"
    by (simp add: reference_simps)
  from boxes vertices
    polygon_in_polygon [of reference "[innerSquare]" 2 2 8 8 "[square]" 0 0 10 10
      innerSquare "[]"]
    polygon_in_polygon [of reference "[square]" 0 0 10 10 "[innerSquare]" 2 2 8 8
      square "[]"]
  show ?thesis by simp
qed

text \<open>
  C4. For a pair of declared types that is not among the supported pairs, the
  dispatcher raises an error and returns no boolean. The message names the argument
  and its type: the first argument when its type is none of the four names, the second
  argument otherwise.
\<close>

theorem unsupported_pair_raises:
  "wellTyped g1 \<Longrightarrow> wellTyped g2 \<Longrightarrow> (getType g1, getType g2) \<notin> set supportedPairs \<Longrightarrow>
     booleanWithin c g1 g2 =
       Inl (Error (if getType g1 \<in> set supportedTypes
                   then ''feature2 '' @ getType g2 @ '' geometry not supported''
                   else ''feature1 '' @ getType g1 @ '' geometry not supported''))"
  by (cases g1; cases g2) (simp_all add: supportedPairs_def supportedTypes_def)

theorem unsupported_pair_raises_witness:
  "wellTyped (Other ''MultiPolygon'') \<and> wellTyped (Polygon [square])
   \<and> (getType (Other ''MultiPolygon''), getType (Polygon [square])) \<notin> set supportedPairs
   \<and> booleanWithin reference (Other ''MultiPolygon'') (Polygon [square])
       = Inl (Error ''feature1 MultiPolygon geometry not supported'')
   \<and> wellTyped (LineString exampleLine) \<and> wellTyped (Point (1, 2))
   \<and> (getType (LineString exampleLine), getType (Point (1, 2))) \<notin> set supportedPairs
   \<and> booleanWithin reference (LineString exampleLine) (Point (1, 2))
       = Inl (Error ''feature2 Point geometry not supported'')"
proof -
  have typed: "wellTyped (Other ''MultiPolygon'')" "wellTyped (Polygon [square])"
    "wellTyped (LineString exampleLine)" "wellTyped (Point (1, 2))"
    by (simp_all add: supportedTypes_def)
  have pairs:
    "(getType (Other ''MultiPolygon''), getType (Polygon [square])) \<notin> set supportedPairs"
    "(getType (LineString exampleLine), getType (Point (1, 2))) \<notin> set supportedPairs"
    by (simp_all add: supportedPairs_def)
  from unsupported_pair_raises [OF typed(1) typed(2) pairs(1), of reference]
    unsupported_pair_raises [OF typed(3) typed(4) pairs(2), of reference]
    typed pairs
  show ?thesis by (simp add: supportedTypes_def)
qed

text \<open>
  C8. The local test on bounding boxes returns false iff the minimum of the first box
  exceeds that of the second on an axis, or the maximum of the first box is less than
  that of the second on an axis; so it returns true iff the second box fits inside the
  first. The LineString-in-Polygon and Polygon-in-Polygon predicates call it with the
  box of the containing polygon first, and their result depends on it: they return
  false when it fails on the boxes in that order, and otherwise what the tests on the
  vertices (and midpoints) say.
\<close>

theorem bbox_containment_direction:
  "doBBoxOverlap (minX1, minY1, maxX1, maxY1) (minX2, minY2, maxX2, maxY2)
     = (\<not> (minX1 > minX2 \<or> minY1 > minY2 \<or> maxX1 < maxX2 \<or> maxY1 < maxY2))
   \<and> doBBoxOverlap (minX1, minY1, maxX1, maxY1) (minX2, minY2, maxX2, maxY2)
     = (minX1 \<le> minX2 \<and> minY1 \<le> minY2 \<and> maxX2 \<le> maxX1 \<and> maxY2 \<le> maxY1)
   \<and> (\<not> doBBoxOverlap (calcBbox c (Polygon P)) (calcBbox c (LineString L)) \<longrightarrow>
        isLineInPoly c L P = Inr False)
   \<and> ((\<forall>s \<in> set (zip L (tl L)). finitePoint (getMidpoint (fst s) (snd s)) \<noteq> None) \<longrightarrow>
        isLineInPoly c L P
          = Inr (doBBoxOverlap (calcBbox c (Polygon P)) (calcBbox c (LineString L))
                 \<and> (\<forall>p \<in> set (butlast L). inside c p P False)
                 \<and> ((\<exists>p \<in> set (butlast L). inside c p P True)
                    \<or> (\<exists>s \<in> set (zip L (tl L)). \<exists>m.
                          finitePoint (getMidpoint (fst s) (snd s)) = Some m
                          \<and> inside c m P True))))
   \<and> (\<not> doBBoxOverlap (calcBbox c (Polygon B)) (calcBbox c (Polygon A)) \<longrightarrow>
        isPolyInPoly c A B = Inr False)
   \<and> isPolyInPoly c (ring # holes) B
       = Inr (doBBoxOverlap (calcBbox c (Polygon B)) (calcBbox c (Polygon (ring # holes)))
              \<and> (\<forall>v \<in> set ring. inside c v B False))"
proof -
  have test: "doBBoxOverlap (minX1, minY1, maxX1, maxY1) (minX2, minY2, maxX2, maxY2)
     = (\<not> (minX1 > minX2 \<or> minY1 > minY2 \<or> maxX1 < maxX2 \<or> maxY1 < maxY2))"
    "doBBoxOverlap (minX1, minY1, maxX1, maxY1) (minX2, minY2, maxX2, maxY2)
     = (minX1 \<le> minX2 \<and> minY1 \<le> minY2 \<and> maxX2 \<le> maxX1 \<and> maxY2 \<le> maxY1)"
    by (auto simp: doBBoxOverlap_def)
  have line_pruned: "isLineInPoly c L P = Inr False"
    if "\<not> doBBoxOverlap (calcBbox c (Polygon P)) (calcBbox c (LineString L))"
    using that by (simp add: isLineInPoly_def)
  have line_exact: "isLineInPoly c L P
      = Inr (doBBoxOverlap (calcBbox c (Polygon P)) (calcBbox c (LineString L))
             \<and> (\<forall>p \<in> set (butlast L). inside c p P False)
             \<and> ((\<exists>p \<in> set (butlast L). inside c p P True)
                \<or> (\<exists>s \<in> set (zip L (tl L)). \<exists>m.
                      finitePoint (getMidpoint (fst s) (snd s)) = Some m
                      \<and> inside c m P True)))"
    if finite: "\<forall>s \<in> set (zip L (tl L)). finitePoint (getMidpoint (fst s) (snd s)) \<noteq> None"
  proof (cases "doBBoxOverlap (calcBbox c (Polygon P)) (calcBbox c (LineString L))")
    case False
    with line_pruned show ?thesis by simp
  next
    case True
    from isLineInPoly_loop_finite [OF finite]
    obtain b where b: "isLineInPoly_loop c L P False = Inr b" by blast
    from isLineInPoly_loop_result [OF b] b True show ?thesis
      by (simp add: isLineInPoly_def)
  qed
  have poly_pruned: "isPolyInPoly c A B = Inr False"
    if "\<not> doBBoxOverlap (calcBbox c (Polygon B)) (calcBbox c (Polygon A))"
    using that by (simp add: isPolyInPoly_def)
  have poly_exact: "isPolyInPoly c (ring # holes) B
       = Inr (doBBoxOverlap (calcBbox c (Polygon B)) (calcBbox c (Polygon (ring # holes)))
              \<and> (\<forall>v \<in> set ring. inside c v B False))"
    by (simp add: isPolyInPoly_def isPolyInPoly_loop_iff nth_js_def)
  from test line_pruned line_exact poly_pruned poly_exact show ?thesis by blast
qed

theorem bbox_containment_direction_witness:
  "doBBoxOverlap (0, 0, 10, 10) (2, 2, 8, 8) = True
   \<and> doBBoxOverlap (2, 2, 8, 8) (0, 0, 10, 10) = False
   \<and> \<not> doBBoxOverlap (calcBbox reference (Polygon [innerSquare]))
          (calcBbox reference (LineString [(0, 4), (10, 8)]))
   \<and> isLineInPoly reference [(0, 4), (10, 8)] [innerSquare] = Inr False
   \<and> doBBoxOverlap (calcBbox reference (Polygon [square]))
          (calcBbox reference (LineString [(0, 4), (10, 8)]))
   \<and> \<not> doBBoxOverlap (calcBbox reference (LineString [(0, 4), (10, 8)]))
          (calcBbox reference (Polygon [square]))
   \<and> finitePoint (getMidpoint (0, 4) (10, 8)) = Some (5, 6)
   \<and> isLineInPoly reference [(0, 4), (10, 8)] [square] = Inr True
   \<and> \<not> doBBoxOverlap (calcBbox reference (Polygon [innerSquare]))
          (calcBbox reference (Polygon [square]))
   \<and> isPolyInPoly reference [square] [innerSquare] = Inr False
   \<and> doBBoxOverlap (calcBbox reference (Polygon [square]))
          (calcBbox reference (Polygon [innerSquare]))
   \<and> isPolyInPoly reference [innerSquare] [square] = Inr True"
proof -
  have boxes: "\<not> doBBoxOverlap (calcBbox reference (Polygon [innerSquare]))
          (calcBbox reference (LineString [(0, 4), (10, 8)]))"
    "doBBoxOverlap (calcBbox reference (Polygon [square]))
          (calcBbox reference (LineString [(0, 4), (10, 8)]))"
    "\<not> doBBoxOverlap (calcBbox reference (LineString [(0, 4), (10, 8)]))
          (calcBbox reference (Polygon [square]))"
    "\<not> doBBoxOverlap (calcBbox reference (Polygon [innerSquare]))
          (calcBbox reference (Polygon [square]))"
    "doBBoxOverlap (calcBbox reference (Polygon [square]))
          (calcBbox reference (Polygon [innerSquare]))"
    by (simp_all add: doBBoxOverlap_def reference_simps)
  have midpoint: "finitePoint (getMidpoint (0, 4) (10, 8)) = Some (5, 6)"
    by (simp add: number_simps)
  have points: "inside reference (0, 4) [square] False"
    "inside reference (5, 6) [square] True"
    "\<forall>v \<in> set innerSquare. inside reference v [square] False"
    by (simp_all add: reference_simps)
  from boxes midpoint points
    bbox_containment_direction [of 0 0 10 10 2 2 8 8 reference "[innerSquare]"
      "[(0, 4), (10, 8)]" "[innerSquare]" "[square]" innerSquare "[]"]
    bbox_containment_direction [of 2 2 8 8 0 0 10 10 reference "[square]"
      "[(0, 4), (10, 8)]" "[square]" "[innerSquare]" innerSquare "[]"]
  show ?thesis by simp
qed


end
